theory Spec2Isabelle
  imports Main "HOL-Library.Word" "HOL-Library.Sublist"
begin

section \<open>Entity model (main.go, lines 17-24)\<close>

text \<open>
  \<^verbatim>\<open>primitive.ObjectID\<close> is \<^verbatim>\<open>[12]byte\<close>: 96 bits, read big-endian. Go's \<^verbatim>\<open>int\<close> is
  a 64-bit integer. A \<^verbatim>\<open>float64\<close> is carried as its 64-bit pattern: the handlers only
  copy prices, they never compute with them.
\<close>

type_synonym ObjectID = "96 word"
type_synonym go_int = "64 word"
type_synonym float64 = "64 word"

definition NilObjectID :: ObjectID where
  "NilObjectID = 0"

record Car =
  ID :: ObjectID
  Make :: string
  Model :: string
  Year :: go_int
  Price :: float64

text \<open>The zero value of the struct, as \<^verbatim>\<open>var car Car\<close> declares it.\<close>

definition zero_Car :: Car where
  "zero_Car = \<lparr>ID = NilObjectID, Make = [], Model = [], Year = 0, Price = 0\<rparr>"

section \<open>Identifiers on the wire\<close>

text \<open>
  \<^verbatim>\<open>primitive.ObjectIDFromHex\<close> of the driver: the string must have 24 bytes, each a
  hexadecimal digit of either case (\<^verbatim>\<open>encoding/hex\<close>). \<^verbatim>\<open>ObjectID.Hex\<close> is the inverse
  rendering, in lower case, used by the JSON encoding of \<^verbatim>\<open>Car.ID\<close>.
\<close>

datatype hex_error = ErrInvalidHex | InvalidByteError

definition fromHexChar :: "char \<Rightarrow> nat option" where
  "fromHexChar c =
     (let n = (of_char c :: nat) in
      if 48 \<le> n \<and> n \<le> 57 then Some (n - 48)
      else if 97 \<le> n \<and> n \<le> 102 then Some (n - 97 + 10)
      else if 65 \<le> n \<and> n \<le> 70 then Some (n - 65 + 10)
      else None)"

fun hex_Decode :: "string \<Rightarrow> nat \<Rightarrow> nat option" where
  "hex_Decode [] acc = Some acc"
| "hex_Decode (c # cs) acc =
     (case fromHexChar c of
        None \<Rightarrow> None
      | Some d \<Rightarrow> hex_Decode cs (16 * acc + d))"

definition ObjectIDFromHex :: "string \<Rightarrow> hex_error + ObjectID" where
  "ObjectIDFromHex s =
     (if length s \<noteq> 24 then Inl ErrInvalidHex
      else case hex_Decode s 0 of
             None \<Rightarrow> Inl InvalidByteError
           | Some n \<Rightarrow> Inr (of_nat n))"

definition hextable :: string where
  "hextable = ''0123456789abcdef''"

fun hex_Encode :: "nat \<Rightarrow> nat \<Rightarrow> string" where
  "hex_Encode 0 k = []"
| "hex_Encode (Suc n) k = hex_Encode n (k div 16) @ [hextable ! (k mod 16)]"

definition Hex :: "ObjectID \<Rightarrow> string" where
  "Hex oid = hex_Encode 24 (unat oid)"

section \<open>Requests and responses\<close>

text \<open>
  A request carries the \<^verbatim>\<open>id\<close> path parameter and a body. \<^verbatim>\<open>c.ShouldBindJSON(&car)\<close>
  either fails or stores into \<^verbatim>\<open>car\<close> the fields the body gives; the body is modelled
  by that outcome: undecodable, or the value of each of the five JSON keys that is
  present. A key that is absent leaves the field of \<^verbatim>\<open>car\<close> as it was.
\<close>

record payload =
  json_id :: "ObjectID option"
  json_make :: "string option"
  json_model :: "string option"
  json_year :: "go_int option"
  json_price :: "float64 option"

datatype body = Undecodable | Decodable payload

record request =
  Param_id :: string
  Body :: body

datatype bind_error = BindError

definition ShouldBindJSON :: "body \<Rightarrow> Car \<Rightarrow> bind_error + Car" where
  "ShouldBindJSON b car =
     (case b of
        Undecodable \<Rightarrow> Inl BindError
      | Decodable p \<Rightarrow>
          Inr \<lparr>ID = (case json_id p of None \<Rightarrow> ID car | Some v \<Rightarrow> v),
               Make = (case json_make p of None \<Rightarrow> Make car | Some v \<Rightarrow> v),
               Model = (case json_model p of None \<Rightarrow> Model car | Some v \<Rightarrow> v),
               Year = (case json_year p of None \<Rightarrow> Year car | Some v \<Rightarrow> v),
               Price = (case json_price p of None \<Rightarrow> Price car | Some v \<Rightarrow> v)\<rparr>)"

text \<open>
  A Go slice is nil or holds a sequence; \<^verbatim>\<open>encoding/json\<close> writes a nil slice as
  \<^verbatim>\<open>null\<close> and any other slice as an array.
\<close>

datatype 'a slice = NilSlice | Slice "'a list"

datatype json =
    JNull
  | JString string
  | JInt go_int
  | JFloat float64
  | JArray "json list"
  | JObject "(string \<times> json) list"

definition Car_json :: "Car \<Rightarrow> json" where
  "Car_json car =
     JObject [(''id'', JString (Hex (ID car))),
              (''make'', JString (Make car)),
              (''model'', JString (Model car)),
              (''year'', JInt (Year car)),
              (''price'', JFloat (Price car))]"

definition Cars_json :: "Car slice \<Rightarrow> json" where
  "Cars_json cars =
     (case cars of
        NilSlice \<Rightarrow> JNull
      | Slice xs \<Rightarrow> JArray (map Car_json xs))"

text \<open>\<^verbatim>\<open>gin.H{"error": msg}\<close>.\<close>

definition H_error :: "string \<Rightarrow> json" where
  "H_error msg = JObject [(''error'', JString msg)]"

record response =
  status :: nat
  body :: "json option"

abbreviation StatusOK :: nat where "StatusOK \<equiv> 200"
abbreviation StatusCreated :: nat where "StatusCreated \<equiv> 201"
abbreviation StatusNoContent :: nat where "StatusNoContent \<equiv> 204"
abbreviation StatusBadRequest :: nat where "StatusBadRequest \<equiv> 400"
abbreviation StatusNotFound :: nat where "StatusNotFound \<equiv> 404"
abbreviation StatusInternalServerError :: nat where "StatusInternalServerError \<equiv> 500"

text \<open>\<^verbatim>\<open>c.JSON(code, obj)\<close> and \<^verbatim>\<open>c.Status(code)\<close>.\<close>

definition JSON :: "nat \<Rightarrow> json \<Rightarrow> response" where
  "JSON code obj = \<lparr>status = code, body = Some obj\<rparr>"

definition Status :: "nat \<Rightarrow> response" where
  "Status code = \<lparr>status = code, body = None\<rparr>"

text \<open>
  A handler either writes one response or panics (the unchecked type assertion of
  \<^verbatim>\<open>addCar\<close>, line 88).
\<close>

datatype outcome = Responded response | Panicked

section \<open>The storage collaborator\<close>

text \<open>
  Values of Go's \<^verbatim>\<open>interface{}\<close> that cross this interface, and \<^verbatim>\<open>bson.M\<close> as the
  list of its entries.
\<close>

datatype go_value =
    VObjectID ObjectID
  | VString string
  | VInt go_int
  | VFloat64 float64
  | VM "(string \<times> go_value) list"

type_synonym bson_M = "(string \<times> go_value) list"

datatype storage_error =
    ErrNoDocuments
  | ErrDeadlineExceeded
  | ErrConnection
  | ErrDecode
  | ErrDuplicateKey
  | ErrCommand

record InsertOneResult =
  InsertedID :: go_value

record UpdateResult =
  MatchedCount :: int

record DeleteResult =
  DeletedCount :: int

text \<open>
  \<^verbatim>\<open>*mongo.Collection\<close> is external: the handlers are defined over any collection,
  given by its operations on a store of type \<open>'s\<close>, with cursors of type \<open>'c\<close> and
  single results of type \<open>'r\<close>. A deadline that expires shows as the operation's
  error; the context itself is not modelled.
\<close>

record ('s, 'c, 'r) Collection =
  Find :: "bson_M \<Rightarrow> 's \<Rightarrow> (storage_error + 'c) \<times> 's"
  All :: "'c \<Rightarrow> Car slice \<Rightarrow> 's \<Rightarrow> (storage_error + Car slice) \<times> 's"
  Close :: "'c \<Rightarrow> 's \<Rightarrow> 's"
  InsertOne :: "Car \<Rightarrow> 's \<Rightarrow> (storage_error + InsertOneResult) \<times> 's"
  FindOne :: "bson_M \<Rightarrow> 's \<Rightarrow> 'r \<times> 's"
  Decode :: "'r \<Rightarrow> Car \<Rightarrow> storage_error + Car"
  UpdateOne :: "bson_M \<Rightarrow> bson_M \<Rightarrow> 's \<Rightarrow> (storage_error + UpdateResult) \<times> 's"
  DeleteOne :: "bson_M \<Rightarrow> 's \<Rightarrow> (storage_error + DeleteResult) \<times> 's"

text \<open>
  The world a handler runs in: the store, and the log of the storage calls made so far.
\<close>

datatype call =
    CallFind bson_M
  | CallAll
  | CallClose
  | CallInsertOne Car
  | CallFindOne bson_M
  | CallUpdateOne bson_M bson_M
  | CallDeleteOne bson_M

record 's world =
  store :: 's
  calls :: "call list"

definition call_Find ::
  "('s, 'c, 'r) Collection \<Rightarrow> bson_M \<Rightarrow> 's world \<Rightarrow> (storage_error + 'c) \<times> 's world" where
  "call_Find h f w =
     (case Find h f (store w) of
        (r, s') \<Rightarrow> (r, \<lparr>store = s', calls = calls w @ [CallFind f]\<rparr>))"

definition call_All ::
  "('s, 'c, 'r) Collection \<Rightarrow> 'c \<Rightarrow> Car slice \<Rightarrow> 's world \<Rightarrow>
     (storage_error + Car slice) \<times> 's world" where
  "call_All h cur cars w =
     (case All h cur cars (store w) of
        (r, s') \<Rightarrow> (r, \<lparr>store = s', calls = calls w @ [CallAll]\<rparr>))"

definition call_Close :: "('s, 'c, 'r) Collection \<Rightarrow> 'c \<Rightarrow> 's world \<Rightarrow> 's world" where
  "call_Close h cur w = \<lparr>store = Close h cur (store w), calls = calls w @ [CallClose]\<rparr>"

definition call_InsertOne ::
  "('s, 'c, 'r) Collection \<Rightarrow> Car \<Rightarrow> 's world \<Rightarrow>
     (storage_error + InsertOneResult) \<times> 's world" where
  "call_InsertOne h car w =
     (case InsertOne h car (store w) of
        (r, s') \<Rightarrow> (r, \<lparr>store = s', calls = calls w @ [CallInsertOne car]\<rparr>))"

definition call_FindOne ::
  "('s, 'c, 'r) Collection \<Rightarrow> bson_M \<Rightarrow> 's world \<Rightarrow> 'r \<times> 's world" where
  "call_FindOne h f w =
     (case FindOne h f (store w) of
        (r, s') \<Rightarrow> (r, \<lparr>store = s', calls = calls w @ [CallFindOne f]\<rparr>))"

definition call_UpdateOne ::
  "('s, 'c, 'r) Collection \<Rightarrow> bson_M \<Rightarrow> bson_M \<Rightarrow> 's world \<Rightarrow>
     (storage_error + UpdateResult) \<times> 's world" where
  "call_UpdateOne h f u w =
     (case UpdateOne h f u (store w) of
        (r, s') \<Rightarrow> (r, \<lparr>store = s', calls = calls w @ [CallUpdateOne f u]\<rparr>))"

definition call_DeleteOne ::
  "('s, 'c, 'r) Collection \<Rightarrow> bson_M \<Rightarrow> 's world \<Rightarrow>
     (storage_error + DeleteResult) \<times> 's world" where
  "call_DeleteOne h f w =
     (case DeleteOne h f (store w) of
        (r, s') \<Rightarrow> (r, \<lparr>store = s', calls = calls w @ [CallDeleteOne f]\<rparr>))"

section \<open>The request handlers (main.go, lines 51-173)\<close>

text \<open>
  The filter \<^verbatim>\<open>bson.M{"_id": id}\<close> of lines 103, 136 and 161, and the update document
  of lines 128-135.
\<close>

abbreviation by_id :: "ObjectID \<Rightarrow> bson_M" where
  "by_id oid \<equiv> [(''_id'', VObjectID oid)]"

abbreviation set_fields :: "Car \<Rightarrow> bson_M" where
  "set_fields car \<equiv>
     [(''$set'', VM [(''make'', VString (Make car)),
                     (''model'', VString (Model car)),
                     (''year'', VInt (Year car)),
                     (''price'', VFloat64 (Price car))])]"

definition getAllCars ::
  "('s, 'c, 'r) Collection \<Rightarrow> request \<Rightarrow> 's world \<Rightarrow> outcome \<times> 's world" where
  "getAllCars h c w =
     (let cars = NilSlice in
      case call_Find h [] w of
        (Inl err, w1) \<Rightarrow>
          (Responded (JSON StatusInternalServerError (H_error ''Failed to fetch cars'')), w1)
      | (Inr cursor, w1) \<Rightarrow>
          (case call_All h cursor cars w1 of
             (Inl err, w2) \<Rightarrow>
               (Responded (JSON StatusInternalServerError (H_error ''Failed to load cars'')),
                call_Close h cursor w2)
           | (Inr cars', w2) \<Rightarrow>
               (Responded (JSON StatusOK (Cars_json cars')), call_Close h cursor w2)))"

definition addCar ::
  "('s, 'c, 'r) Collection \<Rightarrow> request \<Rightarrow> 's world \<Rightarrow> outcome \<times> 's world" where
  "addCar h c w =
     (case ShouldBindJSON (Body c) zero_Car of
        Inl err \<Rightarrow> (Responded (JSON StatusBadRequest (H_error ''Invalid car data'')), w)
      | Inr car \<Rightarrow>
          (case call_InsertOne h car w of
             (Inl err, w1) \<Rightarrow>
               (Responded (JSON StatusInternalServerError (H_error ''Failed to add car'')), w1)
           | (Inr result, w1) \<Rightarrow>
               (case InsertedID result of
                  VObjectID oid \<Rightarrow> (Responded (JSON StatusCreated (Car_json (car\<lparr>ID := oid\<rparr>))), w1)
                | _ \<Rightarrow> (Panicked, w1))))"

definition getCarByID ::
  "('s, 'c, 'r) Collection \<Rightarrow> request \<Rightarrow> 's world \<Rightarrow> outcome \<times> 's world" where
  "getCarByID h c w =
     (case ObjectIDFromHex (Param_id c) of
        Inl err \<Rightarrow> (Responded (JSON StatusBadRequest (H_error ''Invalid car ID'')), w)
      | Inr oid \<Rightarrow>
          (case call_FindOne h (by_id oid) w of
             (res, w1) \<Rightarrow>
               (case Decode h res zero_Car of
                  Inl err \<Rightarrow> (Responded (JSON StatusNotFound (H_error ''Car not found'')), w1)
                | Inr car \<Rightarrow> (Responded (JSON StatusOK (Car_json car)), w1))))"

definition updateCar ::
  "('s, 'c, 'r) Collection \<Rightarrow> request \<Rightarrow> 's world \<Rightarrow> outcome \<times> 's world" where
  "updateCar h c w =
     (case ObjectIDFromHex (Param_id c) of
        Inl err \<Rightarrow> (Responded (JSON StatusBadRequest (H_error ''Invalid car ID'')), w)
      | Inr oid \<Rightarrow>
          (case ShouldBindJSON (Body c) zero_Car of
             Inl err \<Rightarrow> (Responded (JSON StatusBadRequest (H_error ''Invalid car data'')), w)
           | Inr car \<Rightarrow>
               (let update = set_fields car in
                case call_UpdateOne h (by_id oid) update w of
                  (Inl err, w1) \<Rightarrow>
                    (Responded (JSON StatusInternalServerError (H_error ''Failed to update car'')),
                     w1)
                | (Inr result, w1) \<Rightarrow>
                    if MatchedCount result = 0
                    then (Responded (JSON StatusNotFound (H_error ''Car not found'')), w1)
                    else (Responded (JSON StatusOK (Car_json (car\<lparr>ID := oid\<rparr>))), w1))))"

definition deleteCar ::
  "('s, 'c, 'r) Collection \<Rightarrow> request \<Rightarrow> 's world \<Rightarrow> outcome \<times> 's world" where
  "deleteCar h c w =
     (case ObjectIDFromHex (Param_id c) of
        Inl err \<Rightarrow> (Responded (JSON StatusBadRequest (H_error ''Invalid car ID'')), w)
      | Inr oid \<Rightarrow>
          (case call_DeleteOne h (by_id oid) w of
             (Inl err, w1) \<Rightarrow>
               (Responded (JSON StatusInternalServerError (H_error ''Failed to delete car'')),
                w1)
           | (Inr result, w1) \<Rightarrow>
               if DeletedCount result = 0
               then (Responded (JSON StatusNotFound (H_error ''Car not found'')), w1)
               else (Responded (Status StatusNoContent), w1)))"

section \<open>A reference collection\<close>

text \<open>
  Modelled from the spec: the document collection of section 6 (find-all, insert-one
  returning the assigned id, find-one-by-id, update-one-by-id reporting the matched
  count, delete-one-by-id reporting the deleted count), which is the MongoDB driver
  and server and not part of the repository. The store holds the documents of the
  collection in insertion order, each with the five elements \<^verbatim>\<open>_id\<close>, \<^verbatim>\<open>make\<close>,
  \<^verbatim>\<open>model\<close>, \<^verbatim>\<open>year\<close>, \<^verbatim>\<open>price\<close> that the bson tags of \<^verbatim>\<open>Car\<close> name; \<open>fresh\<close> is the
  next identifier the driver generates; \<open>fault\<close>, when set, is the failure
  (connectivity, deadline) that every round trip to the server meets. Only the filters
  and the update document that the handlers build are interpreted; any other is
  answered by \<open>ErrCommand\<close>.
\<close>

record mem_store =
  docs :: "Car list"
  fresh :: ObjectID
  fault :: "storage_error option"

definition filter_pred :: "bson_M \<Rightarrow> (Car \<Rightarrow> bool) option" where
  "filter_pred f =
     (case f of
        [] \<Rightarrow> Some (\<lambda>d. True)
      | [(k, VObjectID oid)] \<Rightarrow> if k = ''_id'' then Some (\<lambda>d. ID d = oid) else None
      | _ \<Rightarrow> None)"

text \<open>Modelled from the spec: find-all, by the filter \<^verbatim>\<open>bson.M{}\<close>.\<close>

definition mem_Find :: "bson_M \<Rightarrow> mem_store \<Rightarrow> (storage_error + Car list) \<times> mem_store" where
  "mem_Find f s =
     (case fault s of
        Some e \<Rightarrow> (Inl e, s)
      | None \<Rightarrow>
          (case filter_pred f of
             None \<Rightarrow> (Inl ErrCommand, s)
           | Some P \<Rightarrow> (Inr (filter P (docs s)), s)))"

text \<open>
  Modelled from the spec: the second half of find-all, \<^verbatim>\<open>Cursor.All\<close>. The spec does
  not say what becomes of the slice that is passed in; by the driver's documentation
  the documents of the cursor are decoded over it from index 0 and it is resliced to
  their number, and a nil slice is not modified when the cursor has no document.
\<close>

definition mem_All ::
  "Car list \<Rightarrow> Car slice \<Rightarrow> mem_store \<Rightarrow> (storage_error + Car slice) \<times> mem_store" where
  "mem_All cur cars s =
     (Inr (case cars of
             NilSlice \<Rightarrow> if cur = [] then NilSlice else Slice cur
           | Slice xs \<Rightarrow> Slice cur), s)"

text \<open>Modelled from the spec: closing a cursor has no effect on the documents.\<close>

definition mem_Close :: "Car list \<Rightarrow> mem_store \<Rightarrow> mem_store" where
  "mem_Close cur s = s"

text \<open>
  Modelled from the spec: insert-one, which returns the assigned id. The struct is
  marshalled by its bson tags (line 19): \<^verbatim>\<open>_id,omitempty\<close> leaves the \<^verbatim>\<open>_id\<close>
  element out when \<^verbatim>\<open>car.ID\<close> is the zero ObjectID, and the driver then generates
  one. \<^verbatim>\<open>InsertedID\<close> is the \<^verbatim>\<open>_id\<close> of the document that was sent, an ObjectID
  either way. The server refuses a second document with the same \<^verbatim>\<open>_id\<close>.
\<close>

definition mem_InsertOne ::
  "Car \<Rightarrow> mem_store \<Rightarrow> (storage_error + InsertOneResult) \<times> mem_store" where
  "mem_InsertOne car s =
     (case fault s of
        Some e \<Rightarrow> (Inl e, s)
      | None \<Rightarrow>
          (let oid = (if ID car = NilObjectID then fresh s else ID car);
               s1 = (if ID car = NilObjectID then s\<lparr>fresh := fresh s + 1\<rparr> else s)
           in if oid \<in> set (map ID (docs s1)) then (Inl ErrDuplicateKey, s1)
              else (Inr \<lparr>InsertedID = VObjectID oid\<rparr>,
                    s1\<lparr>docs := docs s1 @ [car\<lparr>ID := oid\<rparr>]\<rparr>)))"

text \<open>Modelled from the spec: find-one-by-id; the first document that matches.\<close>

definition mem_FindOne :: "bson_M \<Rightarrow> mem_store \<Rightarrow> (storage_error + Car) \<times> mem_store" where
  "mem_FindOne f s =
     (case fault s of
        Some e \<Rightarrow> (Inl e, s)
      | None \<Rightarrow>
          (case filter_pred f of
             None \<Rightarrow> (Inl ErrCommand, s)
           | Some P \<Rightarrow>
               (case List.find P (docs s) of
                  None \<Rightarrow> (Inl ErrNoDocuments, s)
                | Some d \<Rightarrow> (Inr d, s))))"

text \<open>
  Modelled from the spec: the decoding half of find-one-by-id. \<^verbatim>\<open>SingleResult.Decode\<close>
  returns the error of the query if there was one; otherwise every field of the target
  is set from the document, which has all five elements.
\<close>

definition mem_Decode :: "storage_error + Car \<Rightarrow> Car \<Rightarrow> storage_error + Car" where
  "mem_Decode res car = (case res of Inl e \<Rightarrow> Inl e | Inr d \<Rightarrow> Inr d)"

text \<open>
  Modelled from the spec: update-one-by-id, which reports the matched count. The
  operator \<^verbatim>\<open>$set\<close> stores each value it names into the first document that
  matches and leaves the other elements of that document as they are.
\<close>

definition set_field :: "string \<Rightarrow> go_value \<Rightarrow> Car \<Rightarrow> storage_error + Car" where
  "set_field k v d =
     (if k = ''make'' then (case v of VString x \<Rightarrow> Inr (d\<lparr>Make := x\<rparr>) | _ \<Rightarrow> Inl ErrCommand)
      else if k = ''model'' then (case v of VString x \<Rightarrow> Inr (d\<lparr>Model := x\<rparr>) | _ \<Rightarrow> Inl ErrCommand)
      else if k = ''year'' then (case v of VInt x \<Rightarrow> Inr (d\<lparr>Year := x\<rparr>) | _ \<Rightarrow> Inl ErrCommand)
      else if k = ''price'' then (case v of VFloat64 x \<Rightarrow> Inr (d\<lparr>Price := x\<rparr>) | _ \<Rightarrow> Inl ErrCommand)
      else Inl ErrCommand)"

fun apply_set :: "bson_M \<Rightarrow> Car \<Rightarrow> storage_error + Car" where
  "apply_set [] d = Inr d"
| "apply_set ((k, v) # kvs) d =
     (case set_field k v d of
        Inl e \<Rightarrow> Inl e
      | Inr d' \<Rightarrow> apply_set kvs d')"

definition apply_update :: "bson_M \<Rightarrow> Car \<Rightarrow> storage_error + Car" where
  "apply_update u d =
     (case u of
        [(operator, VM kvs)] \<Rightarrow> if operator = ''$set'' then apply_set kvs d else Inl ErrCommand
      | _ \<Rightarrow> Inl ErrCommand)"

fun update_first ::
  "(Car \<Rightarrow> bool) \<Rightarrow> (Car \<Rightarrow> storage_error + Car) \<Rightarrow> Car list \<Rightarrow>
     storage_error + (int \<times> Car list)" where
  "update_first P f [] = Inr (0, [])"
| "update_first P f (d # ds) =
     (if P d
      then (case f d of
              Inl e \<Rightarrow> Inl e
            | Inr d' \<Rightarrow> Inr (1, d' # ds))
      else (case update_first P f ds of
              Inl e \<Rightarrow> Inl e
            | Inr (n, ds') \<Rightarrow> Inr (n, d # ds')))"

definition mem_UpdateOne ::
  "bson_M \<Rightarrow> bson_M \<Rightarrow> mem_store \<Rightarrow> (storage_error + UpdateResult) \<times> mem_store" where
  "mem_UpdateOne f u s =
     (case fault s of
        Some e \<Rightarrow> (Inl e, s)
      | None \<Rightarrow>
          (case filter_pred f of
             None \<Rightarrow> (Inl ErrCommand, s)
           | Some P \<Rightarrow>
               (case update_first P (apply_update u) (docs s) of
                  Inl e \<Rightarrow> (Inl e, s)
                | Inr (n, ds) \<Rightarrow> (Inr \<lparr>MatchedCount = n\<rparr>, s\<lparr>docs := ds\<rparr>))))"

text \<open>
  Modelled from the spec: delete-one-by-id, which reports the deleted count; the first
  document that matches is removed.
\<close>

fun delete_first :: "(Car \<Rightarrow> bool) \<Rightarrow> Car list \<Rightarrow> int \<times> Car list" where
  "delete_first P [] = (0, [])"
| "delete_first P (d # ds) =
     (if P d then (1, ds)
      else (case delete_first P ds of (n, ds') \<Rightarrow> (n, d # ds')))"

definition mem_DeleteOne ::
  "bson_M \<Rightarrow> mem_store \<Rightarrow> (storage_error + DeleteResult) \<times> mem_store" where
  "mem_DeleteOne f s =
     (case fault s of
        Some e \<Rightarrow> (Inl e, s)
      | None \<Rightarrow>
          (case filter_pred f of
             None \<Rightarrow> (Inl ErrCommand, s)
           | Some P \<Rightarrow>
               (case delete_first P (docs s) of
                  (n, ds) \<Rightarrow> (Inr \<lparr>DeletedCount = n\<rparr>, s\<lparr>docs := ds\<rparr>))))"

text \<open>Modelled from the spec: the collection of section 6, as one value.\<close>

definition mem :: "(mem_store, Car list, storage_error + Car) Collection" where
  "mem = \<lparr>Find = mem_Find, All = mem_All, Close = mem_Close, InsertOne = mem_InsertOne,
          FindOne = mem_FindOne, Decode = mem_Decode, UpdateOne = mem_UpdateOne,
          DeleteOne = mem_DeleteOne\<rparr>"

section \<open>Sample data\<close>

text \<open>
  The scenario of section 8 of the specification: a Toyota Corolla of 2020 at 19999.99,
  later updated to 2021 at 18999.99 (the prices as IEEE 754 bit patterns), and an
  identifier of 24 hexadecimal digits.
\<close>

definition sample_hex :: string where
  "sample_hex = ''507f1f77bcf86cd799439011''"

definition sample_oid :: ObjectID where
  "sample_oid = 0x507F1F77BCF86CD799439011"

definition corolla_2020 :: payload where
  "corolla_2020 =
     \<lparr>json_id = None, json_make = Some ''Toyota'', json_model = Some ''Corolla'',
      json_year = Some 2020, json_price = Some 0x40D387FF5C28F5C3\<rparr>"

definition corolla_2021 :: payload where
  "corolla_2021 =
     \<lparr>json_id = None, json_make = Some ''Toyota'', json_model = Some ''Corolla'',
      json_year = Some 2021, json_price = Some 0x40D28DFF5C28F5C3\<rparr>"

definition stored_corolla :: Car where
  "stored_corolla =
     \<lparr>ID = sample_oid, Make = ''Toyota'', Model = ''Corolla'', Year = 2020,
      Price = 0x40D387FF5C28F5C3\<rparr>"

definition updated_corolla :: Car where
  "updated_corolla =
     \<lparr>ID = sample_oid, Make = ''Toyota'', Model = ''Corolla'', Year = 2021,
      Price = 0x40D28DFF5C28F5C3\<rparr>"

definition empty_store :: mem_store where
  "empty_store = \<lparr>docs = [], fresh = sample_oid, fault = None\<rparr>"

definition one_car_store :: mem_store where
  "one_car_store = \<lparr>docs = [stored_corolla], fresh = sample_oid + 1, fault = None\<rparr>"

definition unreachable_store :: mem_store where
  "unreachable_store =
     \<lparr>docs = [stored_corolla], fresh = sample_oid + 1, fault = Some ErrDeadlineExceeded\<rparr>"

section \<open>Identifiers: parsing inverts rendering\<close>

lemma hex_Decode_append:
  "hex_Decode (xs @ ys) acc =
     (case hex_Decode xs acc of None \<Rightarrow> None | Some a \<Rightarrow> hex_Decode ys a)"
  by (induction xs arbitrary: acc) (auto split: option.splits)

lemma length_hex_Encode: "length (hex_Encode n k) = n"
  by (induction n arbitrary: k) auto

lemma hex_digits: "list_all (\<lambda>d. fromHexChar (hextable ! d) = Some d) [0..<16]"
  by code_simp

lemma fromHexChar_hextable: "d < 16 \<Longrightarrow> fromHexChar (hextable ! d) = Some d"
  using hex_digits by (simp add: list_all_iff)

lemma hex_Decode_Encode: "hex_Decode (hex_Encode n k) 0 = Some (k mod 16 ^ n)"
proof (induction n arbitrary: k)
  case 0
  show ?case by simp
next
  case (Suc n)
  have "k mod 16 < 16" by simp
  then have d: "fromHexChar (hextable ! (k mod 16)) = Some (k mod 16)"
    by (rule fromHexChar_hextable)
  have "k mod (16 * 16 ^ n) = 16 * (k div 16 mod 16 ^ n) + k mod 16"
    by (rule mod_mult2_eq)
  with Suc d show ?case
    by (simp add: hex_Decode_append)
qed

lemma ObjectIDFromHex_Hex: "ObjectIDFromHex (Hex oid) = Inr oid"
proof -
  have "unat oid < 2 ^ 96"
    using unsigned_less [of oid] by simp
  then have "unat oid mod 16 ^ 24 = unat oid"
    by simp
  then show ?thesis
    by (simp add: ObjectIDFromHex_def Hex_def length_hex_Encode hex_Decode_Encode)
qed

section \<open>Lemmas about the sample data\<close>

lemma sample_hex_parses: "ObjectIDFromHex sample_hex = Inr sample_oid"
  by (simp add: sample_hex_def sample_oid_def ObjectIDFromHex_def fromHexChar_def)

lemma sample_oid_not_nil: "sample_oid \<noteq> NilObjectID"
  by (simp add: sample_oid_def NilObjectID_def)

lemma bind_corolla_2020:
  "ShouldBindJSON (Decodable corolla_2020) zero_Car = Inr (stored_corolla\<lparr>ID := NilObjectID\<rparr>)"
  by (simp add: ShouldBindJSON_def corolla_2020_def zero_Car_def stored_corolla_def)

lemma bind_corolla_2021:
  "ShouldBindJSON (Decodable corolla_2021) zero_Car = Inr (updated_corolla\<lparr>ID := NilObjectID\<rparr>)"
  by (simp add: ShouldBindJSON_def corolla_2021_def zero_Car_def updated_corolla_def)

section \<open>Lemmas about the reference collection\<close>

lemma find_append_new:
  "oid \<notin> set (map ID ds) \<Longrightarrow>
   List.find (\<lambda>d. ID d = oid) (ds @ [car\<lparr>ID := oid\<rparr>]) = Some (car\<lparr>ID := oid\<rparr>)"
  by (induction ds) auto

lemma mem_InsertOne_success:
  assumes "mem_InsertOne car s = (Inr res, s')"
  shows "\<exists>oid. InsertedID res = VObjectID oid \<and> oid \<notin> set (map ID (docs s)) \<and>
               docs s' = docs s @ [car\<lparr>ID := oid\<rparr>] \<and> fault s' = None \<and>
               (ID car \<noteq> NilObjectID \<longrightarrow> oid = ID car)"
  using assms
  by (auto simp: mem_InsertOne_def Let_def split: option.splits if_splits)

lemma apply_update_set_fields: "apply_update (set_fields car) d = Inr (car\<lparr>ID := ID d\<rparr>)"
  by (cases d; cases car) (simp add: apply_update_def set_field_def)

lemma update_first_effect:
  assumes "update_first (\<lambda>d. ID d = oid) (\<lambda>d. Inr (car\<lparr>ID := ID d\<rparr>)) ds = Inr (n, ds')"
  shows "(n = 0 \<and> ds' = ds \<and> oid \<notin> set (map ID ds)) \<or>
         (n = 1 \<and> (\<exists>ds1 d ds2. ds = ds1 @ d # ds2 \<and> oid \<notin> set (map ID ds1) \<and> ID d = oid \<and>
                      ds' = ds1 @ car\<lparr>ID := oid\<rparr> # ds2))"
  using assms
proof (induction ds arbitrary: n ds')
  case Nil
  then show ?case by simp
next
  case (Cons a ds)
  show ?case
  proof (cases "ID a = oid")
    case True
    with Cons.prems have "n = 1" "ds' = car\<lparr>ID := oid\<rparr> # ds" by auto
    with True have "a # ds = [] @ a # ds \<and> oid \<notin> set (map ID []) \<and> ID a = oid \<and>
        ds' = [] @ car\<lparr>ID := oid\<rparr> # ds" by simp
    with \<open>n = 1\<close> show ?thesis by blast
  next
    case False
    with Cons.prems obtain ds0 where
      rec: "update_first (\<lambda>d. ID d = oid) (\<lambda>d. Inr (car\<lparr>ID := ID d\<rparr>)) ds = Inr (n, ds0)"
      and ds': "ds' = a # ds0"
      by (auto split: sum.splits)
    from Cons.IH [OF rec] show ?thesis
    proof
      assume "n = 0 \<and> ds0 = ds \<and> oid \<notin> set (map ID ds)"
      with False ds' show ?thesis by auto
    next
      assume "n = 1 \<and> (\<exists>ds1 d ds2. ds = ds1 @ d # ds2 \<and> oid \<notin> set (map ID ds1) \<and> ID d = oid \<and>
                      ds0 = ds1 @ car\<lparr>ID := oid\<rparr> # ds2)"
      then obtain ds1 d ds2 where n: "n = 1" and
        *: "ds = ds1 @ d # ds2" "oid \<notin> set (map ID ds1)" "ID d = oid"
           "ds0 = ds1 @ car\<lparr>ID := oid\<rparr> # ds2"
        by blast
      with False ds' have "a # ds = (a # ds1) @ d # ds2 \<and> oid \<notin> set (map ID (a # ds1)) \<and>
         ID d = oid \<and> ds' = (a # ds1) @ car\<lparr>ID := oid\<rparr> # ds2" by auto
      with n show ?thesis by blast
    qed
  qed
qed

lemma set_field_ID: "set_field k v d = Inr d' \<Longrightarrow> ID d' = ID d"
  by (auto simp: set_field_def split: if_splits go_value.splits)

lemma apply_set_ID: "apply_set kvs d = Inr d' \<Longrightarrow> ID d' = ID d"
  by (induction kvs d rule: apply_set.induct) (auto split: sum.splits dest: set_field_ID)

lemma apply_update_ID: "apply_update u d = Inr d' \<Longrightarrow> ID d' = ID d"
  by (auto simp: apply_update_def split: list.splits prod.splits go_value.splits if_splits
      dest: apply_set_ID)

lemma update_first_ids:
  assumes "update_first P f ds = Inr (n, ds')"
    and "\<And>d d'. f d = Inr d' \<Longrightarrow> ID d' = ID d"
  shows "map ID ds' = map ID ds"
  using assms(1)
proof (induction ds arbitrary: n ds')
  case Nil
  then show ?case by simp
next
  case (Cons a ds)
  then show ?case
    by (auto split: if_splits sum.splits dest: assms(2))
qed

lemma delete_first_subseq: "delete_first P ds = (n, ds') \<Longrightarrow> subseq ds' ds"
  by (induction ds arbitrary: n ds') (auto split: if_splits prod.splits)

section \<open>Lemmas about the handlers\<close>

lemma getCarByID_error_404:
  assumes "ObjectIDFromHex (Param_id c) = Inr oid"
    and "FindOne h (by_id oid) (store w) = (res, s')"
    and "Decode h res zero_Car = Inl err"
  shows "getCarByID h c w =
           (Responded (JSON StatusNotFound (H_error ''Car not found'')),
            \<lparr>store = s', calls = calls w @ [CallFindOne (by_id oid)]\<rparr>)"
  using assms by (simp add: getCarByID_def call_FindOne_def)

lemma getCarByID_found_200:
  assumes "ObjectIDFromHex (Param_id c) = Inr oid"
    and "FindOne h (by_id oid) (store w) = (res, s')"
    and "Decode h res zero_Car = Inr car"
  shows "getCarByID h c w =
           (Responded (JSON StatusOK (Car_json car)),
            \<lparr>store = s', calls = calls w @ [CallFindOne (by_id oid)]\<rparr>)"
  using assms by (simp add: getCarByID_def call_FindOne_def)

lemma addCar_panics_iff:
  "fst (addCar h c w) = Panicked \<longleftrightarrow>
     (\<exists>car res s'. ShouldBindJSON (Body c) zero_Car = Inr car \<and>
        InsertOne h car (store w) = (Inr res, s') \<and> (\<forall>oid. InsertedID res \<noteq> VObjectID oid))"
  by (auto simp: addCar_def call_InsertOne_def split: sum.splits prod.splits go_value.splits)

lemma getAllCars_success:
  assumes "Find h [] (store w) = (Inr cursor, s1)"
    and "All h cursor NilSlice s1 = (Inr cars, s2)"
  shows "getAllCars h c w =
           (Responded (JSON StatusOK (Cars_json cars)),
            \<lparr>store = Close h cursor s2, calls = calls w @ [CallFind [], CallAll, CallClose]\<rparr>)"
  using assms by (simp add: getAllCars_def call_Find_def call_All_def call_Close_def)

lemma getAllCars_mem:
  assumes "fault (store w) = None"
  shows "getAllCars mem c w =
           (Responded (JSON StatusOK
              (if docs (store w) = [] then JNull else JArray (map Car_json (docs (store w))))),
            \<lparr>store = store w, calls = calls w @ [CallFind [], CallAll, CallClose]\<rparr>)"
proof -
  have f: "Find mem [] (store w) = (Inr (docs (store w)), store w)"
    using assms by (simp add: mem_def mem_Find_def filter_pred_def)
  have a: "All mem (docs (store w)) NilSlice (store w) =
             (Inr (if docs (store w) = [] then NilSlice else Slice (docs (store w))), store w)"
    by (simp add: mem_def mem_All_def)
  show ?thesis
    using getAllCars_success [OF f a, of c]
    by (simp add: Cars_json_def mem_def mem_Close_def)
qed

lemma updateCar_call:
  assumes "ObjectIDFromHex (Param_id c) = Inr oid"
    and "ShouldBindJSON (Body c) zero_Car = Inr car"
  shows "calls (snd (updateCar h c w)) = calls w @ [CallUpdateOne (by_id oid) (set_fields car)]"
  using assms
  by (simp add: updateCar_def call_UpdateOne_def Let_def split: prod.splits sum.splits)

lemma updateCar_mem_ok:
  assumes "ObjectIDFromHex (Param_id c) = Inr oid"
    and "ShouldBindJSON (Body c) zero_Car = Inr car"
    and "updateCar mem c w = (Responded r, w1)"
    and "status r = StatusOK"
  shows "\<exists>ds1 d ds2. docs (store w) = ds1 @ d # ds2 \<and> oid \<notin> set (map ID ds1) \<and> ID d = oid \<and>
           docs (store w1) = ds1 @ car\<lparr>ID := oid\<rparr> # ds2"
proof -
  have f: "apply_update (set_fields car) = (\<lambda>d. Inr (car\<lparr>ID := ID d\<rparr>))"
    by (rule ext) (rule apply_update_set_fields)
  obtain res s' where u: "mem_UpdateOne (by_id oid) (set_fields car) (store w) = (res, s')"
    by fastforce
  with assms obtain result where res: "res = Inr result" and m: "MatchedCount result \<noteq> 0"
    and w1: "store w1 = s'"
    by (cases res)
      (auto simp: updateCar_def call_UpdateOne_def mem_def JSON_def Let_def split: if_splits)
  from u res obtain n ds where
    uf: "update_first (\<lambda>d. ID d = oid) (\<lambda>d. Inr (car\<lparr>ID := ID d\<rparr>)) (docs (store w)) =
           Inr (n, ds)"
    and n: "MatchedCount result = n" and s': "docs s' = ds"
    unfolding mem_UpdateOne_def f
    by (auto simp: filter_pred_def split: option.splits sum.splits)
  from update_first_effect [OF uf] m n s' w1 show ?thesis
    by auto
qed

lemma mem_UpdateOne_ids:
  "mem_UpdateOne f u s = (res, s') \<Longrightarrow> map ID (docs s') = map ID (docs s)"
  by (auto simp: mem_UpdateOne_def split: option.splits sum.splits
      dest: update_first_ids [where f = "apply_update u"] apply_update_ID)

lemma mem_InsertOne_prefix:
  "mem_InsertOne car s = (res, s') \<Longrightarrow> prefix (docs s) (docs s')"
  by (auto simp: mem_InsertOne_def Let_def split: option.splits if_splits)

lemma mem_DeleteOne_subseq:
  "mem_DeleteOne f s = (res, s') \<Longrightarrow> subseq (docs s') (docs s)"
  by (auto simp: mem_DeleteOne_def split: option.splits prod.splits dest: delete_first_subseq)

section \<open>The claims of the specification\<close>

text \<open>
  Claim C4 (a malformed identifier or an undecodable body is answered 400 before any
  storage call). For every collection: when the identifier does not parse, get by id,
  update and delete answer 400 and return the world as it was, the same store and the
  same log of storage calls; when the body does not bind, so do create and update.
\<close>

theorem bad_request_before_storage:
  "(ObjectIDFromHex (Param_id c) = Inl e \<longrightarrow>
      getCarByID h c w = (Responded (JSON StatusBadRequest (H_error ''Invalid car ID'')), w) \<and>
      updateCar h c w = (Responded (JSON StatusBadRequest (H_error ''Invalid car ID'')), w) \<and>
      deleteCar h c w = (Responded (JSON StatusBadRequest (H_error ''Invalid car ID'')), w)) \<and>
   (ShouldBindJSON (Body c) zero_Car = Inl b \<longrightarrow>
      addCar h c w = (Responded (JSON StatusBadRequest (H_error ''Invalid car data'')), w) \<and>
      (\<exists>msg. updateCar h c w = (Responded (JSON StatusBadRequest (H_error msg)), w)))"
  by (auto simp: getCarByID_def updateCar_def deleteCar_def addCar_def split: sum.splits)

theorem bad_request_before_storage_witness:
  "ObjectIDFromHex ''not-a-valid-id'' = Inl ErrInvalidHex \<and>
   ShouldBindJSON Undecodable zero_Car = Inl BindError \<and>
   getCarByID mem \<lparr>Param_id = ''not-a-valid-id'', Body = Undecodable\<rparr>
       \<lparr>store = \<lparr>docs = [], fresh = 1, fault = None\<rparr>, calls = []\<rparr> =
     (Responded (JSON StatusBadRequest (H_error ''Invalid car ID'')),
      \<lparr>store = \<lparr>docs = [], fresh = 1, fault = None\<rparr>, calls = []\<rparr>) \<and>
   deleteCar mem \<lparr>Param_id = ''not-a-valid-id'', Body = Undecodable\<rparr>
       \<lparr>store = \<lparr>docs = [], fresh = 1, fault = None\<rparr>, calls = []\<rparr> =
     (Responded (JSON StatusBadRequest (H_error ''Invalid car ID'')),
      \<lparr>store = \<lparr>docs = [], fresh = 1, fault = None\<rparr>, calls = []\<rparr>) \<and>
   addCar mem \<lparr>Param_id = ''not-a-valid-id'', Body = Undecodable\<rparr>
       \<lparr>store = \<lparr>docs = [], fresh = 1, fault = None\<rparr>, calls = []\<rparr> =
     (Responded (JSON StatusBadRequest (H_error ''Invalid car data'')),
      \<lparr>store = \<lparr>docs = [], fresh = 1, fault = None\<rparr>, calls = []\<rparr>) \<and>
   updateCar mem \<lparr>Param_id = ''not-a-valid-id'', Body = Undecodable\<rparr>
       \<lparr>store = \<lparr>docs = [], fresh = 1, fault = None\<rparr>, calls = []\<rparr> =
     (Responded (JSON StatusBadRequest (H_error ''Invalid car ID'')),
      \<lparr>store = \<lparr>docs = [], fresh = 1, fault = None\<rparr>, calls = []\<rparr>)"
  using bad_request_before_storage
    [of "\<lparr>Param_id = ''not-a-valid-id'', Body = Undecodable\<rparr>" ErrInvalidHex mem
        "\<lparr>store = \<lparr>docs = [], fresh = 1, fault = None\<rparr>, calls = []\<rparr>" BindError]
  by (simp add: ObjectIDFromHex_def ShouldBindJSON_def)

text \<open>
  Claim C8 (create: 400 with no insert for an undecodable body, 500 when the insert
  fails, 201 with the car carrying the assigned identifier when it succeeds). For every
  collection; in the last case \<^verbatim>\<open>InsertedID\<close> holds the assigned ObjectID.
\<close>

theorem addCar_outcomes:
  "(ShouldBindJSON (Body c) zero_Car = Inl b \<longrightarrow>
      addCar h c w = (Responded (JSON StatusBadRequest (H_error ''Invalid car data'')), w)) \<and>
   (ShouldBindJSON (Body c) zero_Car = Inr car \<and> InsertOne h car (store w) = (Inl err, s') \<longrightarrow>
      addCar h c w =
        (Responded (JSON StatusInternalServerError (H_error ''Failed to add car'')),
         \<lparr>store = s', calls = calls w @ [CallInsertOne car]\<rparr>)) \<and>
   (ShouldBindJSON (Body c) zero_Car = Inr car \<and>
    InsertOne h car (store w) = (Inr \<lparr>InsertedID = VObjectID oid\<rparr>, s') \<longrightarrow>
      addCar h c w =
        (Responded (JSON StatusCreated (Car_json (car\<lparr>ID := oid\<rparr>))),
         \<lparr>store = s', calls = calls w @ [CallInsertOne car]\<rparr>))"
  by (simp add: addCar_def call_InsertOne_def)

theorem addCar_outcomes_witness:
  "addCar mem \<lparr>Param_id = [], Body = Undecodable\<rparr> \<lparr>store = empty_store, calls = []\<rparr> =
     (Responded (JSON StatusBadRequest (H_error ''Invalid car data'')),
      \<lparr>store = empty_store, calls = []\<rparr>) \<and>
   addCar mem \<lparr>Param_id = [], Body = Decodable corolla_2020\<rparr>
       \<lparr>store = unreachable_store, calls = []\<rparr> =
     (Responded (JSON StatusInternalServerError (H_error ''Failed to add car'')),
      \<lparr>store = unreachable_store,
       calls = [CallInsertOne (stored_corolla\<lparr>ID := NilObjectID\<rparr>)]\<rparr>) \<and>
   addCar mem \<lparr>Param_id = [], Body = Decodable corolla_2020\<rparr>
       \<lparr>store = empty_store, calls = []\<rparr> =
     (Responded (JSON StatusCreated (Car_json stored_corolla)),
      \<lparr>store = one_car_store,
       calls = [CallInsertOne (stored_corolla\<lparr>ID := NilObjectID\<rparr>)]\<rparr>)"
proof -
  let ?bad = "\<lparr>Param_id = [], Body = Undecodable\<rparr>"
  let ?c = "\<lparr>Param_id = [], Body = Decodable corolla_2020\<rparr>"
  let ?car = "stored_corolla\<lparr>ID := NilObjectID\<rparr>"
  have q: "ShouldBindJSON (Body ?bad) zero_Car = Inl BindError"
    by (simp add: ShouldBindJSON_def)
  have b: "ShouldBindJSON (Body ?c) zero_Car = Inr ?car"
    by (simp add: bind_corolla_2020)
  have same: "?car\<lparr>ID := sample_oid\<rparr> = stored_corolla"
    by (simp add: stored_corolla_def)
  have i1: "InsertOne mem ?car (store \<lparr>store = unreachable_store, calls = []\<rparr>) =
            (Inl ErrDeadlineExceeded, unreachable_store)"
    by (simp add: mem_def mem_InsertOne_def unreachable_store_def)
  have i2: "InsertOne mem ?car (store \<lparr>store = empty_store, calls = []\<rparr>) =
            (Inr \<lparr>InsertedID = VObjectID sample_oid\<rparr>, one_car_store)"
    using same by (simp add: mem_def mem_InsertOne_def empty_store_def one_car_store_def)
  show ?thesis
    using addCar_outcomes [where c = ?bad and b = BindError and h = mem
        and w = "\<lparr>store = empty_store, calls = []\<rparr>"]
      addCar_outcomes [where c = ?c and car = ?car and h = mem
        and w = "\<lparr>store = unreachable_store, calls = []\<rparr>"
        and err = ErrDeadlineExceeded and s' = unreachable_store]
      addCar_outcomes [where c = ?c and car = ?car and h = mem
        and w = "\<lparr>store = empty_store, calls = []\<rparr>"
        and s' = one_car_store and oid = sample_oid]
      q b i1 i2 same
    by simp
qed

text \<open>
  Claim C1 (get by id: 404 exactly when no record matches, 500 on any other storage
  failure). The handler answers 404 to every error of \<^verbatim>\<open>FindOne(...).Decode\<close>
  (\<open>getCarByID_error_404\<close>): with the record in the collection and the server out of
  reach within the deadline, the answer is 404 where the claim says 500.
\<close>

theorem getCarByID_deadline_404:
  "getCarByID mem \<lparr>Param_id = sample_hex, Body = Undecodable\<rparr>
       \<lparr>store = unreachable_store, calls = []\<rparr> =
     (Responded (JSON StatusNotFound (H_error ''Car not found'')),
      \<lparr>store = unreachable_store, calls = [CallFindOne (by_id sample_oid)]\<rparr>)"
proof -
  have f: "FindOne mem (by_id sample_oid) (store \<lparr>store = unreachable_store, calls = []\<rparr>) =
             (Inl ErrDeadlineExceeded, unreachable_store)"
    by (simp add: mem_def mem_FindOne_def unreachable_store_def)
  have d: "Decode mem (Inl ErrDeadlineExceeded) zero_Car = Inl ErrDeadlineExceeded"
    by (simp add: mem_def mem_Decode_def)
  have p: "ObjectIDFromHex (Param_id \<lparr>Param_id = sample_hex, Body = Undecodable\<rparr>) = Inr sample_oid"
    by (simp add: sample_hex_parses)
  from getCarByID_error_404 [OF p f d] show ?thesis by simp
qed

text \<open>
  Claim C2 (list: 200 with the array of all records, an empty array when there is none).
  With one record or more the body is the array of all of them (\<open>getAllCars_mem\<close>);
  with none, \<^verbatim>\<open>cars\<close> is still the nil slice declared at line 55 and the body is
  \<^verbatim>\<open>null\<close>, not an empty array.
\<close>

theorem getAllCars_empty_store_null:
  "getAllCars mem \<lparr>Param_id = [], Body = Undecodable\<rparr> \<lparr>store = empty_store, calls = []\<rparr> =
     (Responded \<lparr>status = StatusOK, body = Some JNull\<rparr>,
      \<lparr>store = empty_store, calls = [CallFind [], CallAll, CallClose]\<rparr>)"
proof -
  have "fault (store \<lparr>store = empty_store, calls = []\<rparr>) = None"
    by (simp add: empty_store_def)
  from getAllCars_mem [OF this] show ?thesis
    by (simp add: empty_store_def JSON_def)
qed

text \<open>
  Claim C3 (create, then get by the assigned id, returns the payload's make, model, year
  and price). On the reference collection: when the create request is answered 201,
  the body is the bound payload with its identifier set, and a get request for the
  rendering of that identifier, on the store as the create left it, is answered 200
  with the same record.
\<close>

theorem create_then_get:
  assumes bind: "ShouldBindJSON (Body c) zero_Car = Inr P"
    and add: "addCar mem c w = (Responded r, w1)"
    and created: "status r = StatusCreated"
  shows "\<exists>oid. r = JSON StatusCreated (Car_json (P\<lparr>ID := oid\<rparr>)) \<and>
           getCarByID mem \<lparr>Param_id = Hex oid, Body = b\<rparr> w1 =
             (Responded (JSON StatusOK (Car_json (P\<lparr>ID := oid\<rparr>))),
              \<lparr>store = store w1, calls = calls w1 @ [CallFindOne (by_id oid)]\<rparr>)"
proof -
  obtain res s' where ins: "mem_InsertOne P (store w) = (res, s')"
    by fastforce
  from bind add created ins obtain ir where res: "res = Inr ir"
    by (cases res) (auto simp: addCar_def call_InsertOne_def mem_def JSON_def)
  from mem_InsertOne_success [OF ins [unfolded res]] obtain oid where
    ir: "InsertedID ir = VObjectID oid"
    and docs': "docs s' = docs (store w) @ [P\<lparr>ID := oid\<rparr>]" and up: "fault s' = None"
    and fresh: "oid \<notin> set (map ID (docs (store w)))"
    by auto
  from bind add ins res ir have r: "r = JSON StatusCreated (Car_json (P\<lparr>ID := oid\<rparr>))"
    and w1: "store w1 = s'"
    by (auto simp: addCar_def call_InsertOne_def mem_def)
  have found: "FindOne mem (by_id oid) (store w1) = (Inr (P\<lparr>ID := oid\<rparr>), store w1)"
    using find_append_new [OF fresh, of P] up docs' w1
    by (simp add: mem_def mem_FindOne_def filter_pred_def)
  have dec: "Decode mem (Inr (P\<lparr>ID := oid\<rparr>)) zero_Car = Inr (P\<lparr>ID := oid\<rparr>)"
    by (simp add: mem_def mem_Decode_def)
  have "ObjectIDFromHex (Param_id \<lparr>Param_id = Hex oid, Body = b\<rparr>) = Inr oid"
    by (simp add: ObjectIDFromHex_Hex)
  from getCarByID_found_200 [OF this found dec] r show ?thesis
    by blast
qed

theorem create_then_get_witness:
  "ShouldBindJSON (Body \<lparr>Param_id = [], Body = Decodable corolla_2020\<rparr>) zero_Car =
     Inr (stored_corolla\<lparr>ID := NilObjectID\<rparr>) \<and>
   addCar mem \<lparr>Param_id = [], Body = Decodable corolla_2020\<rparr>
       \<lparr>store = empty_store, calls = []\<rparr> =
     (Responded (JSON StatusCreated (Car_json stored_corolla)),
      \<lparr>store = one_car_store,
       calls = [CallInsertOne (stored_corolla\<lparr>ID := NilObjectID\<rparr>)]\<rparr>) \<and>
   getCarByID mem \<lparr>Param_id = Hex sample_oid, Body = Undecodable\<rparr>
       \<lparr>store = one_car_store,
        calls = [CallInsertOne (stored_corolla\<lparr>ID := NilObjectID\<rparr>)]\<rparr> =
     (Responded (JSON StatusOK (Car_json stored_corolla)),
      \<lparr>store = one_car_store,
       calls = [CallInsertOne (stored_corolla\<lparr>ID := NilObjectID\<rparr>),
                CallFindOne (by_id sample_oid)]\<rparr>)"
proof -
  let ?c = "\<lparr>Param_id = [], Body = Decodable corolla_2020\<rparr>"
  let ?car = "stored_corolla\<lparr>ID := NilObjectID\<rparr>"
  let ?w1 = "\<lparr>store = one_car_store, calls = [CallInsertOne ?car]\<rparr>"
  have b: "ShouldBindJSON (Body ?c) zero_Car = Inr ?car"
    by (simp add: bind_corolla_2020)
  have same: "?car\<lparr>ID := sample_oid\<rparr> = stored_corolla"
    by (simp add: stored_corolla_def)
  have a: "addCar mem ?c \<lparr>store = empty_store, calls = []\<rparr> =
             (Responded (JSON StatusCreated (Car_json stored_corolla)), ?w1)"
    using same
    by (simp add: addCar_def bind_corolla_2020 call_InsertOne_def mem_def mem_InsertOne_def
        empty_store_def one_car_store_def)
  have s: "status (JSON StatusCreated (Car_json stored_corolla)) = StatusCreated"
    by (simp add: JSON_def)
  from create_then_get [OF b a s, of Undecodable] obtain oid where
    eq: "JSON StatusCreated (Car_json stored_corolla) = JSON StatusCreated (Car_json (?car\<lparr>ID := oid\<rparr>))"
    and get: "getCarByID mem \<lparr>Param_id = Hex oid, Body = Undecodable\<rparr> ?w1 =
               (Responded (JSON StatusOK (Car_json (?car\<lparr>ID := oid\<rparr>))),
                \<lparr>store = store ?w1, calls = calls ?w1 @ [CallFindOne (by_id oid)]\<rparr>)"
    by blast
  from eq have "Hex oid = Hex sample_oid"
    by (simp add: JSON_def Car_json_def stored_corolla_def)
  then have "ObjectIDFromHex (Hex oid) = ObjectIDFromHex (Hex sample_oid)"
    by simp
  then have "oid = sample_oid"
    by (simp add: ObjectIDFromHex_Hex)
  with get same b a show ?thesis
    by simp
qed

text \<open>
  Claim C6 (update with a well-formed identifier and a decodable body: 500 when the
  storage call fails, 404 when it matched no record, otherwise 200 with the path
  identifier and the payload's fields). For every collection, whatever
  \<^verbatim>\<open>UpdateOne\<close> returns.
\<close>

theorem updateCar_outcomes:
  assumes "ObjectIDFromHex (Param_id c) = Inr oid"
    and "ShouldBindJSON (Body c) zero_Car = Inr car"
    and "UpdateOne h (by_id oid) (set_fields car) (store w) = (r, s')"
  shows "(\<forall>err. r = Inl err \<longrightarrow>
            updateCar h c w =
              (Responded (JSON StatusInternalServerError (H_error ''Failed to update car'')),
               \<lparr>store = s', calls = calls w @ [CallUpdateOne (by_id oid) (set_fields car)]\<rparr>)) \<and>
         (\<forall>result. r = Inr result \<and> MatchedCount result = 0 \<longrightarrow>
            updateCar h c w =
              (Responded (JSON StatusNotFound (H_error ''Car not found'')),
               \<lparr>store = s', calls = calls w @ [CallUpdateOne (by_id oid) (set_fields car)]\<rparr>)) \<and>
         (\<forall>result. r = Inr result \<and> MatchedCount result \<noteq> 0 \<longrightarrow>
            updateCar h c w =
              (Responded (JSON StatusOK (Car_json (car\<lparr>ID := oid\<rparr>))),
               \<lparr>store = s', calls = calls w @ [CallUpdateOne (by_id oid) (set_fields car)]\<rparr>))"
  using assms by (simp add: updateCar_def call_UpdateOne_def)

theorem updateCar_outcomes_witness:
  "updateCar mem \<lparr>Param_id = sample_hex, Body = Decodable corolla_2021\<rparr>
       \<lparr>store = unreachable_store, calls = []\<rparr> =
     (Responded (JSON StatusInternalServerError (H_error ''Failed to update car'')),
      \<lparr>store = unreachable_store,
       calls = [CallUpdateOne (by_id sample_oid) (set_fields updated_corolla)]\<rparr>) \<and>
   updateCar mem \<lparr>Param_id = sample_hex, Body = Decodable corolla_2021\<rparr>
       \<lparr>store = empty_store, calls = []\<rparr> =
     (Responded (JSON StatusNotFound (H_error ''Car not found'')),
      \<lparr>store = empty_store,
       calls = [CallUpdateOne (by_id sample_oid) (set_fields updated_corolla)]\<rparr>) \<and>
   updateCar mem \<lparr>Param_id = sample_hex, Body = Decodable corolla_2021\<rparr>
       \<lparr>store = one_car_store, calls = []\<rparr> =
     (Responded (JSON StatusOK (Car_json updated_corolla)),
      \<lparr>store = \<lparr>docs = [updated_corolla], fresh = sample_oid + 1, fault = None\<rparr>,
       calls = [CallUpdateOne (by_id sample_oid) (set_fields updated_corolla)]\<rparr>)"
proof -
  let ?c = "\<lparr>Param_id = sample_hex, Body = Decodable corolla_2021\<rparr>"
  let ?car = "updated_corolla\<lparr>ID := NilObjectID\<rparr>"
  have p: "ObjectIDFromHex (Param_id ?c) = Inr sample_oid"
    by (simp add: sample_hex_parses)
  have b: "ShouldBindJSON (Body ?c) zero_Car = Inr ?car"
    by (simp add: bind_corolla_2021)
  have same: "?car\<lparr>ID := sample_oid\<rparr> = updated_corolla"
    by (simp add: updated_corolla_def)
  have u1: "UpdateOne mem (by_id sample_oid) (set_fields ?car)
              (store \<lparr>store = unreachable_store, calls = []\<rparr>) =
            (Inl ErrDeadlineExceeded, unreachable_store)"
    by (simp add: mem_def mem_UpdateOne_def unreachable_store_def)
  have u2: "UpdateOne mem (by_id sample_oid) (set_fields ?car)
              (store \<lparr>store = empty_store, calls = []\<rparr>) =
            (Inr \<lparr>MatchedCount = 0\<rparr>, empty_store)"
    by (simp add: mem_def mem_UpdateOne_def empty_store_def filter_pred_def)
  have u3: "UpdateOne mem (by_id sample_oid) (set_fields ?car)
              (store \<lparr>store = one_car_store, calls = []\<rparr>) =
            (Inr \<lparr>MatchedCount = 1\<rparr>,
             \<lparr>docs = [updated_corolla], fresh = sample_oid + 1, fault = None\<rparr>)"
    using apply_update_set_fields [of ?car stored_corolla]
    by (simp add: mem_def mem_UpdateOne_def one_car_store_def filter_pred_def
        stored_corolla_def updated_corolla_def)
  show ?thesis
    using updateCar_outcomes [OF p b u1] updateCar_outcomes [OF p b u2]
      updateCar_outcomes [OF p b u3] same
    by simp
qed

text \<open>
  Claim C7 (delete: 400 for a malformed identifier, 500 when the storage call fails, 404
  when it deleted nothing, otherwise 204 with no body). For every collection, whatever
  \<^verbatim>\<open>DeleteOne\<close> returns.
\<close>

theorem deleteCar_outcomes:
  "(ObjectIDFromHex (Param_id c) = Inl e \<longrightarrow>
      deleteCar h c w = (Responded (JSON StatusBadRequest (H_error ''Invalid car ID'')), w)) \<and>
   (ObjectIDFromHex (Param_id c) = Inr oid \<and> DeleteOne h (by_id oid) (store w) = (r, s') \<longrightarrow>
      (\<forall>err. r = Inl err \<longrightarrow>
         deleteCar h c w =
           (Responded (JSON StatusInternalServerError (H_error ''Failed to delete car'')),
            \<lparr>store = s', calls = calls w @ [CallDeleteOne (by_id oid)]\<rparr>)) \<and>
      (\<forall>result. r = Inr result \<and> DeletedCount result = 0 \<longrightarrow>
         deleteCar h c w =
           (Responded (JSON StatusNotFound (H_error ''Car not found'')),
            \<lparr>store = s', calls = calls w @ [CallDeleteOne (by_id oid)]\<rparr>)) \<and>
      (\<forall>result. r = Inr result \<and> DeletedCount result \<noteq> 0 \<longrightarrow>
         deleteCar h c w =
           (Responded \<lparr>status = StatusNoContent, body = None\<rparr>,
            \<lparr>store = s', calls = calls w @ [CallDeleteOne (by_id oid)]\<rparr>)))"
  by (simp add: deleteCar_def call_DeleteOne_def Status_def)

theorem deleteCar_outcomes_witness:
  "deleteCar mem \<lparr>Param_id = ''not-a-valid-id'', Body = Undecodable\<rparr>
       \<lparr>store = one_car_store, calls = []\<rparr> =
     (Responded (JSON StatusBadRequest (H_error ''Invalid car ID'')),
      \<lparr>store = one_car_store, calls = []\<rparr>) \<and>
   deleteCar mem \<lparr>Param_id = sample_hex, Body = Undecodable\<rparr>
       \<lparr>store = unreachable_store, calls = []\<rparr> =
     (Responded (JSON StatusInternalServerError (H_error ''Failed to delete car'')),
      \<lparr>store = unreachable_store, calls = [CallDeleteOne (by_id sample_oid)]\<rparr>) \<and>
   deleteCar mem \<lparr>Param_id = sample_hex, Body = Undecodable\<rparr>
       \<lparr>store = empty_store, calls = []\<rparr> =
     (Responded (JSON StatusNotFound (H_error ''Car not found'')),
      \<lparr>store = empty_store, calls = [CallDeleteOne (by_id sample_oid)]\<rparr>) \<and>
   deleteCar mem \<lparr>Param_id = sample_hex, Body = Undecodable\<rparr>
       \<lparr>store = one_car_store, calls = []\<rparr> =
     (Responded \<lparr>status = StatusNoContent, body = None\<rparr>,
      \<lparr>store = \<lparr>docs = [], fresh = sample_oid + 1, fault = None\<rparr>,
       calls = [CallDeleteOne (by_id sample_oid)]\<rparr>)"
proof -
  let ?bad = "\<lparr>Param_id = ''not-a-valid-id'', Body = Undecodable\<rparr>"
  let ?c = "\<lparr>Param_id = sample_hex, Body = Undecodable\<rparr>"
  have q: "ObjectIDFromHex (Param_id ?bad) = Inl ErrInvalidHex"
    by (simp add: ObjectIDFromHex_def)
  have p: "ObjectIDFromHex (Param_id ?c) = Inr sample_oid"
    by (simp add: sample_hex_parses)
  have d1: "DeleteOne mem (by_id sample_oid) (store \<lparr>store = unreachable_store, calls = []\<rparr>) =
            (Inl ErrDeadlineExceeded, unreachable_store)"
    by (simp add: mem_def mem_DeleteOne_def unreachable_store_def)
  have d2: "DeleteOne mem (by_id sample_oid) (store \<lparr>store = empty_store, calls = []\<rparr>) =
            (Inr \<lparr>DeletedCount = 0\<rparr>, empty_store)"
    by (simp add: mem_def mem_DeleteOne_def empty_store_def filter_pred_def)
  have d3: "DeleteOne mem (by_id sample_oid) (store \<lparr>store = one_car_store, calls = []\<rparr>) =
            (Inr \<lparr>DeletedCount = 1\<rparr>, \<lparr>docs = [], fresh = sample_oid + 1, fault = None\<rparr>)"
    by (simp add: mem_def mem_DeleteOne_def one_car_store_def filter_pred_def stored_corolla_def)
  show ?thesis
    using deleteCar_outcomes [where c = ?bad and e = ErrInvalidHex and h = mem
        and w = "\<lparr>store = one_car_store, calls = []\<rparr>"]
      deleteCar_outcomes [where c = ?c and oid = sample_oid and h = mem
        and w = "\<lparr>store = unreachable_store, calls = []\<rparr>"
        and r = "Inl ErrDeadlineExceeded" and s' = unreachable_store]
      deleteCar_outcomes [where c = ?c and oid = sample_oid and h = mem
        and w = "\<lparr>store = empty_store, calls = []\<rparr>"
        and r = "Inr \<lparr>DeletedCount = 0\<rparr>" and s' = empty_store]
      deleteCar_outcomes [where c = ?c and oid = sample_oid and h = mem
        and w = "\<lparr>store = one_car_store, calls = []\<rparr>"
        and r = "Inr \<lparr>DeletedCount = 1\<rparr>"
        and s' = "\<lparr>docs = [], fresh = sample_oid + 1, fault = None\<rparr>"]
      q p d1 d2 d3
    by simp
qed

text \<open>
  Claim C5 (update overwrites make, model, year and price with the payload's values,
  zero where the payload omits them). For every collection, the one storage call of an
  update request with a well-formed identifier and a decodable body is
  \<^verbatim>\<open>UpdateOne\<close> by that identifier with a \<^verbatim>\<open>$set\<close> of the four fields, each the
  payload's value, or the zero value when the payload has none. On the reference
  collection, when the request is answered 200 the first record with that identifier
  holds exactly these four values afterwards, whatever it held before, and the other
  records are as they were.
\<close>

theorem updateCar_overwrites_all_fields:
  assumes "ObjectIDFromHex (Param_id c) = Inr oid"
    and "Body c = Decodable p"
  shows "\<exists>new. ShouldBindJSON (Body c) zero_Car = Inr new \<and>
           Make new = (case json_make p of None \<Rightarrow> [] | Some v \<Rightarrow> v) \<and>
           Model new = (case json_model p of None \<Rightarrow> [] | Some v \<Rightarrow> v) \<and>
           Year new = (case json_year p of None \<Rightarrow> 0 | Some v \<Rightarrow> v) \<and>
           Price new = (case json_price p of None \<Rightarrow> 0 | Some v \<Rightarrow> v) \<and>
           calls (snd (updateCar h c w)) =
             calls w @ [CallUpdateOne (by_id oid)
                          [(''$set'', VM [(''make'', VString (Make new)),
                                          (''model'', VString (Model new)),
                                          (''year'', VInt (Year new)),
                                          (''price'', VFloat64 (Price new))])]] \<and>
           (\<forall>r w1. updateCar mem c w0 = (Responded r, w1) \<and> status r = StatusOK \<longrightarrow>
              (\<exists>ds1 d ds2. docs (store w0) = ds1 @ d # ds2 \<and> oid \<notin> set (map ID ds1) \<and>
                 ID d = oid \<and>
                 docs (store w1) =
                   ds1 @ \<lparr>ID = oid, Make = Make new, Model = Model new, Year = Year new,
                          Price = Price new\<rparr> # ds2))"
proof -
  obtain new where b: "ShouldBindJSON (Body c) zero_Car = Inr new"
    using assms(2) by (simp add: ShouldBindJSON_def)
  with assms(2) have fields:
    "Make new = (case json_make p of None \<Rightarrow> [] | Some v \<Rightarrow> v)"
    "Model new = (case json_model p of None \<Rightarrow> [] | Some v \<Rightarrow> v)"
    "Year new = (case json_year p of None \<Rightarrow> 0 | Some v \<Rightarrow> v)"
    "Price new = (case json_price p of None \<Rightarrow> 0 | Some v \<Rightarrow> v)"
    by (auto simp: ShouldBindJSON_def zero_Car_def split: option.splits)
  have over: "new\<lparr>ID := oid\<rparr> =
      \<lparr>ID = oid, Make = Make new, Model = Model new, Year = Year new, Price = Price new\<rparr>"
    by (cases new) simp
  have call: "calls (snd (updateCar h c w)) =
          calls w @ [CallUpdateOne (by_id oid) (set_fields new)]"
    using assms(1) b by (rule updateCar_call)
  have "\<exists>ds1 d ds2. docs (store w0) = ds1 @ d # ds2 \<and> oid \<notin> set (map ID ds1) \<and>
      ID d = oid \<and> docs (store w1) = ds1 @ new\<lparr>ID := oid\<rparr> # ds2"
    if "updateCar mem c w0 = (Responded r, w1)" and "status r = StatusOK" for r w1
    using assms(1) b that by (rule updateCar_mem_ok)
  then have eff: "\<forall>r w1. updateCar mem c w0 = (Responded r, w1) \<and> status r = StatusOK \<longrightarrow>
      (\<exists>ds1 d ds2. docs (store w0) = ds1 @ d # ds2 \<and> oid \<notin> set (map ID ds1) \<and>
         ID d = oid \<and>
         docs (store w1) =
           ds1 @ \<lparr>ID = oid, Make = Make new, Model = Model new, Year = Year new,
                  Price = Price new\<rparr> # ds2)"
    unfolding over by blast
  from b fields call eff show ?thesis
    by blast
qed

theorem updateCar_overwrites_all_fields_witness:
  "ObjectIDFromHex (Param_id \<lparr>Param_id = sample_hex, Body = Decodable corolla_2021\<rparr>) =
     Inr sample_oid \<and>
   updateCar mem \<lparr>Param_id = sample_hex, Body = Decodable corolla_2021\<rparr>
       \<lparr>store = one_car_store, calls = []\<rparr> =
     (Responded (JSON StatusOK (Car_json updated_corolla)),
      \<lparr>store = \<lparr>docs = [updated_corolla], fresh = sample_oid + 1, fault = None\<rparr>,
       calls = [CallUpdateOne (by_id sample_oid) (set_fields updated_corolla)]\<rparr>) \<and>
   (\<exists>ds1 d ds2. docs one_car_store = ds1 @ d # ds2 \<and> sample_oid \<notin> set (map ID ds1) \<and>
      ID d = sample_oid \<and> [updated_corolla] = ds1 @ updated_corolla # ds2)"
proof -
  let ?c = "\<lparr>Param_id = sample_hex, Body = Decodable corolla_2021\<rparr>"
  let ?car = "updated_corolla\<lparr>ID := NilObjectID\<rparr>"
  let ?w0 = "\<lparr>store = one_car_store, calls = []\<rparr>"
  let ?s1 = "\<lparr>docs = [updated_corolla], fresh = sample_oid + 1, fault = None\<rparr>"
  let ?w1 = "\<lparr>store = ?s1,
              calls = [CallUpdateOne (by_id sample_oid) (set_fields updated_corolla)]\<rparr>"
  have p: "ObjectIDFromHex (Param_id ?c) = Inr sample_oid"
    by (simp add: sample_hex_parses)
  have body: "Body ?c = Decodable corolla_2021"
    by simp
  have same: "?car\<lparr>ID := sample_oid\<rparr> = updated_corolla"
    by (simp add: updated_corolla_def)
  have u: "mem_UpdateOne (by_id sample_oid) (set_fields ?car) one_car_store =
             (Inr \<lparr>MatchedCount = 1\<rparr>, ?s1)"
    using apply_update_set_fields [of ?car stored_corolla]
    by (simp add: mem_UpdateOne_def one_car_store_def filter_pred_def
        stored_corolla_def updated_corolla_def)
  have run: "updateCar mem ?c ?w0 = (Responded (JSON StatusOK (Car_json updated_corolla)), ?w1)"
    using same u
    by (simp add: updateCar_def sample_hex_parses bind_corolla_2021 call_UpdateOne_def mem_def)
  have ok: "status (JSON StatusOK (Car_json updated_corolla)) = StatusOK"
    by (simp add: JSON_def)
  from updateCar_overwrites_all_fields [OF p body, where ?w0.0 = ?w0] obtain new where
    b: "ShouldBindJSON (Body ?c) zero_Car = Inr new"
    and eff: "\<forall>r w1. updateCar mem ?c ?w0 = (Responded r, w1) \<and> status r = StatusOK \<longrightarrow>
      (\<exists>ds1 d ds2. docs (store ?w0) = ds1 @ d # ds2 \<and> sample_oid \<notin> set (map ID ds1) \<and>
         ID d = sample_oid \<and>
         docs (store w1) =
           ds1 @ \<lparr>ID = sample_oid, Make = Make new, Model = Model new, Year = Year new,
                  Price = Price new\<rparr> # ds2)"
    by blast
  from b have new: "new = ?car"
    by (simp add: bind_corolla_2021)
  have rec: "\<lparr>ID = sample_oid, Make = Make new, Model = Model new, Year = Year new,
              Price = Price new\<rparr> = updated_corolla"
    unfolding new by (simp add: updated_corolla_def)
  from eff run ok have
    "\<exists>ds1 d ds2. docs (store ?w0) = ds1 @ d # ds2 \<and> sample_oid \<notin> set (map ID ds1) \<and>
         ID d = sample_oid \<and>
         docs (store ?w1) =
           ds1 @ \<lparr>ID = sample_oid, Make = Make new, Model = Model new, Year = Year new,
                  Price = Price new\<rparr> # ds2"
    by blast
  then have "\<exists>ds1 d ds2. docs one_car_store = ds1 @ d # ds2 \<and> sample_oid \<notin> set (map ID ds1) \<and>
      ID d = sample_oid \<and> [updated_corolla] = ds1 @ updated_corolla # ds2"
    unfolding rec by simp
  with p run show ?thesis
    by blast
qed

text \<open>
  Claim C9 (no operation modifies the identifier of a stored record). On the reference
  collection an update request leaves the identifiers of the records, in order, as they
  were; list and get by id leave the store as it was; create keeps the records there
  were as a prefix; delete leaves a subsequence of them. For every collection, the
  \<^verbatim>\<open>$set\<close> document of an update request has the keys make, model, year and price
  and no other.
\<close>

theorem id_never_modified:
  "map ID (docs (store (snd (updateCar mem c w)))) = map ID (docs (store w)) \<and>
   store (snd (getAllCars mem c w)) = store w \<and>
   store (snd (getCarByID mem c w)) = store w \<and>
   prefix (docs (store w)) (docs (store (snd (addCar mem c w)))) \<and>
   subseq (docs (store (snd (deleteCar mem c w)))) (docs (store w)) \<and>
   (\<forall>oid car. ObjectIDFromHex (Param_id c) = Inr oid \<and>
        ShouldBindJSON (Body c) zero_Car = Inr car \<longrightarrow>
      (\<exists>kvs. calls (snd (updateCar h c w')) =
                calls w' @ [CallUpdateOne (by_id oid) [(''$set'', VM kvs)]] \<and>
             map fst kvs = [''make'', ''model'', ''year'', ''price'']))"
proof -
  have upd: "map ID (docs (store (snd (updateCar mem c w)))) = map ID (docs (store w))"
    by (auto simp: updateCar_def call_UpdateOne_def mem_def Let_def
        split: sum.splits prod.splits dest: mem_UpdateOne_ids)
  have lst: "store (snd (getAllCars mem c w)) = store w"
    by (auto simp: getAllCars_def call_Find_def call_All_def call_Close_def mem_def
        mem_Find_def mem_All_def mem_Close_def split: sum.splits prod.splits option.splits)
  have get: "store (snd (getCarByID mem c w)) = store w"
    by (auto simp: getCarByID_def call_FindOne_def mem_def mem_FindOne_def
        split: sum.splits prod.splits option.splits)
  have add: "prefix (docs (store w)) (docs (store (snd (addCar mem c w))))"
    by (auto simp: addCar_def call_InsertOne_def mem_def
        split: sum.splits prod.splits go_value.splits dest: mem_InsertOne_prefix)
  have del: "subseq (docs (store (snd (deleteCar mem c w)))) (docs (store w))"
    by (auto simp: deleteCar_def call_DeleteOne_def mem_def
        split: sum.splits prod.splits dest: mem_DeleteOne_subseq)
  have doc: "\<exists>kvs. calls (snd (updateCar h c w')) =
                calls w' @ [CallUpdateOne (by_id oid) [(''$set'', VM kvs)]] \<and>
             map fst kvs = [''make'', ''model'', ''year'', ''price'']"
    if "ObjectIDFromHex (Param_id c) = Inr oid" and "ShouldBindJSON (Body c) zero_Car = Inr car"
    for oid car
    using updateCar_call [OF that, of h w'] by simp
  from upd lst get add del doc show ?thesis
    by blast
qed

theorem id_never_modified_witness:
  "ObjectIDFromHex (Param_id \<lparr>Param_id = sample_hex, Body = Decodable corolla_2021\<rparr>) =
     Inr sample_oid \<and>
   ShouldBindJSON (Body \<lparr>Param_id = sample_hex, Body = Decodable corolla_2021\<rparr>) zero_Car =
     Inr (updated_corolla\<lparr>ID := NilObjectID\<rparr>) \<and>
   map ID (docs (store (snd (updateCar mem
       \<lparr>Param_id = sample_hex, Body = Decodable corolla_2021\<rparr>
       \<lparr>store = one_car_store, calls = []\<rparr>)))) = [sample_oid] \<and>
   (\<exists>kvs. calls (snd (updateCar mem
               \<lparr>Param_id = sample_hex, Body = Decodable corolla_2021\<rparr>
               \<lparr>store = one_car_store, calls = []\<rparr>)) =
            [CallUpdateOne (by_id sample_oid) [(''$set'', VM kvs)]] \<and>
          map fst kvs = [''make'', ''model'', ''year'', ''price''])"
proof -
  let ?c = "\<lparr>Param_id = sample_hex, Body = Decodable corolla_2021\<rparr>"
  let ?w = "\<lparr>store = one_car_store, calls = []\<rparr>"
  have p: "ObjectIDFromHex (Param_id ?c) = Inr sample_oid"
    by (simp add: sample_hex_parses)
  have b: "ShouldBindJSON (Body ?c) zero_Car = Inr (updated_corolla\<lparr>ID := NilObjectID\<rparr>)"
    by (simp add: bind_corolla_2021)
  have ids: "map ID (docs (store ?w)) = [sample_oid]"
    by (simp add: one_car_store_def stored_corolla_def)
  from id_never_modified [where c = ?c and w = ?w and h = mem and w' = ?w] p b ids
  show ?thesis
    by simp
qed

text \<open>
  Claim C10 (the identifier returned by a successful insert is an ObjectID, so the type
  assertion of line 88 does not fail and create always answers). On the reference
  collection every successful insert returns an ObjectID, and the create handler
  answers every request with a response; \<open>addCar_panics_iff\<close> says when it would not.
\<close>

theorem addCar_never_panics:
  "(\<forall>car s res s'. InsertOne mem car s = (Inr res, s') \<longrightarrow>
      (\<exists>oid. InsertedID res = VObjectID oid)) \<and>
   (\<exists>r. fst (addCar mem c w) = Responded r)"
proof -
  have ins: "\<exists>oid. InsertedID res = VObjectID oid"
    if "InsertOne mem car s = (Inr res, s')" for car s res s'
    using that mem_InsertOne_success [of car s res s'] by (auto simp: mem_def)
  have "fst (addCar mem c w) \<noteq> Panicked"
    using ins by (auto simp: addCar_panics_iff)
  then have "\<exists>r. fst (addCar mem c w) = Responded r"
    by (cases "fst (addCar mem c w)") auto
  with ins show ?thesis
    by blast
qed

theorem addCar_never_panics_witness:
  "InsertOne mem (stored_corolla\<lparr>ID := NilObjectID\<rparr>) empty_store =
     (Inr \<lparr>InsertedID = VObjectID sample_oid\<rparr>, one_car_store) \<and>
   (\<exists>oid. InsertedID \<lparr>InsertedID = VObjectID sample_oid\<rparr> = VObjectID oid) \<and>
   (\<exists>r. fst (addCar mem \<lparr>Param_id = [], Body = Decodable corolla_2020\<rparr>
                 \<lparr>store = empty_store, calls = []\<rparr>) = Responded r)"
proof -
  have same: "stored_corolla\<lparr>ID := NilObjectID, ID := sample_oid\<rparr> = stored_corolla"
    by (simp add: stored_corolla_def)
  have i: "InsertOne mem (stored_corolla\<lparr>ID := NilObjectID\<rparr>) empty_store =
             (Inr \<lparr>InsertedID = VObjectID sample_oid\<rparr>, one_car_store)"
    using same by (simp add: mem_def mem_InsertOne_def empty_store_def one_car_store_def)
  from addCar_never_panics
    [of "\<lparr>Param_id = [], Body = Decodable corolla_2020\<rparr>"
        "\<lparr>store = empty_store, calls = []\<rparr>"] i
  show ?thesis
    by blast
qed

end
